theory Spec2Isabelle
  imports Main "HOL-Library.Sublist" "HOL-Library.Multiset"
begin

section \<open>Python strings\<close>

text \<open>
  A Python \<open>str\<close> is modelled as a \<open>string\<close>, the text in UTF-8: an ASCII character is one
  \<open>char\<close>, the two dashes of the prompt template are three each. \<open>str(n)\<close> of an unbounded
  Python integer is \<open>str_int n\<close>, \<open>sep.join(parts)\<close> is \<open>join sep parts\<close>, \<open>needle in text\<close>
  is \<open>sublist needle text\<close>, and \<open>lower\<close> is \<open>str.lower\<close> on the ASCII letters.
\<close>

fun str_nat :: "nat \<Rightarrow> string" where
  "str_nat n = (if n < 10 then [''0123456789'' ! n]
                else str_nat (n div 10) @ [''0123456789'' ! (n mod 10)])"

declare str_nat.simps [simp del]

definition str_int :: "int \<Rightarrow> string" where
  "str_int i = (if i < 0 then CHR ''-'' # str_nat (nat (- i)) else str_nat (nat i))"

fun join :: "string \<Rightarrow> string list \<Rightarrow> string" where
  "join sep [] = []"
| "join sep [x] = x"
| "join sep (x # y # ys) = x @ sep @ join sep (y # ys)"

definition lower_char :: "char \<Rightarrow> char" where
  "lower_char c =
     (case map_of (zip ''ABCDEFGHIJKLMNOPQRSTUVWXYZ'' ''abcdefghijklmnopqrstuvwxyz'') c of
        None \<Rightarrow> c
      | Some l \<Rightarrow> l)"

definition lower :: "string \<Rightarrow> string" where
  "lower s = map lower_char s"

definition em_dash :: string where
  "em_dash = [CHR 0xE2, CHR 0x80, CHR 0x94]"

definition en_dash :: string where
  "en_dash = [CHR 0xE2, CHR 0x80, CHR 0x93]"

section \<open>Exceptions\<close>

text \<open>
  The exceptions the module raises, each with what \<open>str(e)\<close> is made of. \<open>ValidationError\<close> is
  pydantic's, raised by a model constructor, and carries the names of the rejected fields.
  The module raises \<open>ValueError\<close> with three fixed messages and the generic \<open>Exception\<close> from
  the handler of \<open>generate_learning_content\<close>; \<open>KeyError\<close> is what \<open>str.format\<close> raises for a
  field without an argument.
\<close>

datatype py_exn =
    ValueError string
  | ValidationError "string list"
  | KeyError string
  | Exception string

text \<open>
  The names under which the specification lists these errors: \<open>InvalidConfigError\<close> is a
  \<open>ValidationError\<close> of \<open>QuestionConfig\<close>, \<open>GenerationError\<close> is the handler's \<open>Exception\<close>, and
  the other three are the \<open>ValueError\<close>s below.
\<close>

definition EmptyConfigurationError :: py_exn where
  "EmptyConfigurationError =
     ValueError ''Question configuration must have at least one question. All question counts are 0.''"

definition MissingCredentialsError :: py_exn where
  "MissingCredentialsError =
     ValueError ''No API key found. Please configure OPENROUTER_API_KEY or CEREBRAS_API_KEY in secrets.toml or environment variables.''"

definition empty_response_message :: string where
  "empty_response_message = ''LLM returned empty or invalid response''"

fun InvalidConfigError :: "py_exn \<Rightarrow> bool" where
  "InvalidConfigError (ValidationError fields) = True"
| "InvalidConfigError _ = False"

section \<open>Response models\<close>

text \<open>
  Each question class is a constructor of \<open>Question\<close>; its \<open>question_type\<close> tag is the
  constructor. The arguments are the fields in the order the class declares them.
\<close>

datatype MCQOption = MCQOption string bool

datatype MatchingPair = MatchingPair string string

datatype Question =
    MCQQuestion string "MCQOption list" string
  | FillInBlankQuestion string string "string list" string
  | TrueFalseQuestion string bool string
  | MatchingQuestion string "MatchingPair list" string
  | OrderingQuestion string "string list" string

fun question_type :: "Question \<Rightarrow> string" where
  "question_type (MCQQuestion _ _ _) = ''mcq''"
| "question_type (FillInBlankQuestion _ _ _ _) = ''fill_blank''"
| "question_type (TrueFalseQuestion _ _ _) = ''true_false''"
| "question_type (MatchingQuestion _ _ _) = ''matching''"
| "question_type (OrderingQuestion _ _ _) = ''ordering''"

record QuestionConfig =
  mcq :: int
  true_false :: int
  fill_blank :: int
  matching :: int
  ordering :: int

text \<open>
  \<open>QuestionConfig(mcq=..., ...)\<close>: an omitted keyword is \<open>None\<close> here and takes the field's
  default; every field is declared \<open>ge=0\<close>, and pydantic raises one \<open>ValidationError\<close> naming
  all the fields that break it.
\<close>

definition given :: "int option \<Rightarrow> int \<Rightarrow> int" where
  "given arg fallback = (case arg of None \<Rightarrow> fallback | Some v \<Rightarrow> v)"

definition QuestionConfig_init ::
  "int option \<Rightarrow> int option \<Rightarrow> int option \<Rightarrow> int option \<Rightarrow> int option \<Rightarrow> py_exn + QuestionConfig"
where
  "QuestionConfig_init mcq_arg true_false_arg fill_blank_arg matching_arg ordering_arg =
     (let m = given mcq_arg 2;
          t = given true_false_arg 2;
          f = given fill_blank_arg 1;
          g = given matching_arg 0;
          r = given ordering_arg 0;
          rejected = map fst (filter (\<lambda>(name, v). \<not> v \<ge> 0)
                       [(''mcq'', m), (''true_false'', t), (''fill_blank'', f),
                        (''matching'', g), (''ordering'', r)])
      in if rejected \<noteq> [] then Inl (ValidationError rejected)
         else Inr \<lparr>mcq = m, true_false = t, fill_blank = f, matching = g, ordering = r\<rparr>)"

definition total_questions :: "QuestionConfig \<Rightarrow> int" where
  "total_questions self =
     mcq self + true_false self + fill_blank self + matching self + ordering self"

definition to_prompt_string :: "QuestionConfig \<Rightarrow> string" where
  "to_prompt_string self =
    (let parts = [];
         parts = (if mcq self > 0
                  then parts @ [str_int (mcq self) @ '' Multiple Choice (MCQ)''] else parts);
         parts = (if true_false self > 0
                  then parts @ [str_int (true_false self) @ '' True/False''] else parts);
         parts = (if fill_blank self > 0
                  then parts @ [str_int (fill_blank self) @ '' Fill in the Blank''] else parts);
         parts = (if matching self > 0
                  then parts @ [str_int (matching self) @ '' Matching''] else parts);
         parts = (if ordering self > 0
                  then parts @ [str_int (ordering self) @ '' Ordering''] else parts)
     in join '', '' parts)"

text \<open>
  \<open>BiteSizedContent\<close>; its field \<open>topic\<close> is \<open>content_topic\<close> here, \<open>topic\<close> being the name of
  the generators' first parameter.
\<close>

record BiteSizedContent =
  pre_read :: string
  questions :: "Question list"
  summary :: "string list"
  tags :: "string list"
  concept_name :: string
  content_topic :: string
  estimated_time :: int
  difficulty_level :: string

section \<open>The prompt template\<close>

text \<open>
  \<open>DYNAMIC_PROMPT_TEMPLATE\<close> as \<open>str.format\<close> reads it: the literal text between the
  replacement fields, and the six fields by name. The text has no brace besides those of
  the fields and no backslash. Each list element below is one line of the source, cut at
  the dashes.
\<close>

definition template_text_0 :: string where
  \<open>template_text_0 = concat [
    ''\<newline>'',
    ''You are creating bite-sized learning content for Unrot, a mobile-first learning app where people spend 5 minutes learning something new every day. The content must compete with social media for attention'', em_dash, ''it should be vivid, clear, and feel like a rewarding, relevant conversation.\<newline>'',
    ''\<newline>'',
    ''Input:\<newline>'',
    ''Topic: '']\<close>

definition template_text_1 :: string where
  \<open>template_text_1 = concat [
    ''\<newline>'',
    ''Concept: '']\<close>

definition template_text_2 :: string where
  \<open>template_text_2 = concat [
    ''\<newline>'',
    ''Concept Description: '']\<close>

definition template_text_3 :: string where
  \<open>template_text_3 = concat [
    ''\<newline>'',
    ''\<newline>'',
    ''IMPORTANT: Understanding the Concept Description\<newline>'',
    ''The "Concept Description" is a teaser/hook'', em_dash, ''not the full scope of what should be covered. It sparks curiosity, but your job is to ensure readers walk away feeling, "Whoa, I actually get this now!" Your content should deliver:\<newline>'',
    ''A multi-faceted, well-rounded understanding of the concept\<newline>'',
    ''Relatable stories, analogies, or humor (no pop culture reference needed)\<newline>'',
    ''Instant, practical "aha" moments'', em_dash, ''why does this really matter to people?\<newline>'',
    ''Concrete, varied examples (not just textbook cases)\<newline>'',
    ''Intuitive explanations that anyone can relate to\<newline>'',
    ''Answers to the "So what?" behind the idea\<newline>'',
    ''\<newline>'',
    ''Content Structure to Generate\<newline>'',
    ''\<newline>'',
    ''1. PRE-READ (The Hook & Revelation)\<newline>'',
    ''Goal: Excite the reader and give them a solid, memorable understanding of the concept.\<newline>'',
    ''Requirements:\<newline>'',
    ''Length: 250'', en_dash, ''350 words max'', em_dash, ''fits comfortably on one phone screen, no endless scrolling\<newline>'',
    ''Tone: Imagine explaining something cool to a friend over a cup of chai'', em_dash, ''energetic, clear, never patronizing or stuffy\<newline>'',
    ''Structure:\<newline>'',
    ''Start with a story, everyday scenario, playful analogy, or a question that grabs curiosity in the first line.\<newline>'',
    ''Speaks directly to the reader ("you," "we"), inviting them into a conversation.\<newline>'',
    ''Unpack why this concept shows up everywhere and why it matters'', em_dash, ''cut to the heart, use humor or surprise.\<newline>'',
    ''Explain using real-world examples drawn from different domains (media, daily life, business, etc.).\<newline>'',
    ''Every piece of jargon is instantly disarmed with a plain-English translation'', em_dash, ''no one's left behind.\<newline>'',
    ''Anticipate common questions and address them (sometimes as a rhetorical Q&A within the text).\<newline>'',
    ''Insert at least one "aha!" insight or offbeat perspective'', em_dash, ''a fact, metaphor, or counterintuitive angle that makes readers pause and smile.\<newline>'',
    ''Keep paragraphs and sentences short and punchy'', em_dash, ''never a wall of text.\<newline>'',
    ''What to Avoid:\<newline>'',
    ''Don't just retell the concept description'', em_dash, ''expand, contextualize, and bring it alive\<newline>'',
    ''Don't over-focus on one example; always show variety and surprise\<newline>'',
    ''Don't use unexplained jargon; always break it down with analogies or humor\<newline>'',
    ''Writing Style Guidance:\<newline>'',
    ''Use "you"/"we" to make it direct and personal\<newline>'',
    ''Every section should feel like a fun, illuminating chat'', em_dash, ''not a dry lecture or a listicle\<newline>'',
    ''\<newline>'',
    ''2. QUESTIONS (Test, Teach, Entertain)\<newline>'',
    ''Goal: Spark new discoveries'', em_dash, ''questions should teach as much as they test.\<newline>'',
    ''Requirements:\<newline>'',
    ''Generate EXACTLY '']\<close>

definition template_text_4 :: string where
  \<open>template_text_4 = concat [
    '' questions with the following distribution:\<newline>'']\<close>

definition template_text_5 :: string where
  \<open>template_text_5 = concat [
    ''\<newline>'',
    ''\<newline>'',
    ''QUESTION TYPE DETAILS:\<newline>'',
    ''\<newline>'',
    ''A) MULTIPLE CHOICE (MCQ):\<newline>'',
    ''   - Traditional 4-option question\<newline>'',
    ''   - Best for: scenarios, problem-solving, application\<newline>'',
    ''   - Keep mobile-friendly: max 2 sentences, options under 15 words\<newline>'',
    ''   - All wrong answers should be plausible\<newline>'',
    ''\<newline>'',
    ''B) TRUE/FALSE:\<newline>'',
    ''   - Single statement to judge as true or false\<newline>'',
    ''   - Best for: testing misconceptions, common myths, key facts\<newline>'',
    ''   - Make it thought-provoking, not obvious\<newline>'',
    ''\<newline>'',
    ''C) FILL IN THE BLANK:\<newline>'',
    ''   - Sentence with one _____ to complete\<newline>'',
    ''   - Provide the correct answer + 3 plausible distractors\<newline>'',
    ''   - Best for: terminology, key concepts, definitions\<newline>'',
    ''   - Make the blank meaningful, not trivial\<newline>'',
    ''   - IMPORTANT: Only use ONE blank per question\<newline>'',
    ''\<newline>'',
    ''D) MATCHING:\<newline>'',
    ''   - 3-4 pairs to match (left item to right item)\<newline>'',
    ''   - Best for: definitions, relationships, comparisons\<newline>'',
    ''   - Keep each item short (under 10 words)\<newline>'',
    ''\<newline>'',
    ''E) ORDERING/SEQUENCING:\<newline>'',
    ''   - 3-4 items to put in correct order\<newline>'',
    ''   - Best for: processes, steps, chronology, priority\<newline>'',
    ''   - Items should be clear and distinct\<newline>'',
    ''\<newline>'',
    ''Each question:\<newline>'',
    ''Tests core understanding of the concept\<newline>'',
    ''Reveals a fresh use-case, fact, or application not already covered\<newline>'',
    ''Avoids trickery'', em_dash, ''every question is a chance to reveal another angle\<newline>'',
    ''Include for each:\<newline>'',
    ''Question text (friendly, sometimes informal or story-driven)\<newline>'',
    ''Options or expected answer format\<newline>'',
    ''Correct answer\<newline>'',
    ''Explanation that unpacks why this answer is right, brings in a misconception (if any), and adds a nugget of insight or analogy\<newline>'',
    ''\<newline>'',
    ''3. SUMMARY\<newline>'',
    ''Goal: Leave readers with 3'', en_dash, ''5 pithy, memorable takeaways they can quickly recall and share.\<newline>'',
    ''Requirements:\<newline>'',
    ''Each bullet is concise (1'', en_dash, ''2 sentences), practical, and (where possible) tied to an analogy, daily life, or "so what" impact.\<newline>'',
    ''\<newline>'',
    ''4. TAGS (Optional but Recommended)\<newline>'',
    ''Goal: Discovery and connection'', em_dash, ''help users relate this lesson to others.\<newline>'',
    ''Requirements:\<newline>'',
    ''3'', en_dash, ''5 relevant tags (concepts, applications, difficulty level, cross-topic ties)\<newline>'',
    ''\<newline>'',
    ''Quality Checklist\<newline>'',
    ''Before finalizing, verify:\<newline>'',
    '' Pre-read is engaging from line one'', em_dash, ''feels like a conversation, not a textbook\<newline>'',
    '' Fits one mobile screen (250'', en_dash, ''350 words)\<newline>'',
    '' Multiple real-world examples, humor/analogies, and at least one "aha" fact or angle (pop culture not required)\<newline>'',
    '' All jargon is demystified\<newline>'',
    '' EXACTLY '']\<close>

definition template_text_6 :: string where
  \<open>template_text_6 = concat [
    '' questions provided with the specified distribution\<newline>'',
    '' Questions entertain and expand knowledge\<newline>'',
    '' Each question's explanation includes a story or extra insight\<newline>'',
    '' Bullet summary makes key takeaways scannable and applicable\<newline>'',
    '' The whole lesson is as fun and rewarding as scrolling your favorite news or meme page\<newline>'',
    ''\<newline>'',
    ''Creator Notes:\<newline>'',
    ''Mobile-first focus!\<newline>'',
    ''Every line competes for attention\<newline>'',
    ''"Friend test": Would you enjoy explaining this out loud to someone who didn't ask?\<newline>'',
    ''"Scroll test": Is it so clear, punchy, and relevant you'd share it in a WhatsApp group?\<newline>'',
    ''"So What?": Ensure at least one practical or perspective-changing takeaway\<newline>'']\<close>

datatype piece = Literal string | Field string

definition DYNAMIC_PROMPT_TEMPLATE :: "piece list" where
  "DYNAMIC_PROMPT_TEMPLATE =
     [Literal template_text_0, Field ''topic'',
      Literal template_text_1, Field ''concept'',
      Literal template_text_2, Field ''concept_description'',
      Literal template_text_3, Field ''total_questions'',
      Literal template_text_4, Field ''question_distribution'',
      Literal template_text_5, Field ''total_questions'',
      Literal template_text_6]"

text \<open>
  \<open>template.format(**kwargs)\<close>: each field is replaced by its argument, which is not read
  again for fields; a field without an argument raises \<open>KeyError\<close>.
\<close>

fun format :: "piece list \<Rightarrow> (string \<times> string) list \<Rightarrow> py_exn + string" where
  "format [] kwargs = Inr []"
| "format (Literal s # ps) kwargs =
     (case format ps kwargs of Inl e \<Rightarrow> Inl e | Inr rest \<Rightarrow> Inr (s @ rest))"
| "format (Field name # ps) kwargs =
     (case map_of kwargs name of
        None \<Rightarrow> Inl (KeyError name)
      | Some v \<Rightarrow> (case format ps kwargs of Inl e \<Rightarrow> Inl e | Inr rest \<Rightarrow> Inr (v @ rest)))"

section \<open>Effects\<close>

text \<open>
  What a call does besides returning: the clients it constructs, the formatting of the
  template and the request to the LLM client library, in the order they happen.
\<close>

record ChatOpenAI =
  model :: string
  openai_api_key :: string
  openai_api_base :: string

text \<open>
  The arguments of \<open>client.qna_engine.generate_questions\<close>, with the model the client was
  built on.
\<close>

record generate_questions_args =
  custom_model :: ChatOpenAI
  topic_arg :: string
  concept_arg :: string
  num :: int
  prompt_template :: string
  response_model :: string

datatype event =
    ChatOpenAI_created ChatOpenAI
  | Educhain_created ChatOpenAI
  | Template_formatted
  | Questions_requested generate_questions_args

fun clients_created :: "event list \<Rightarrow> ChatOpenAI list" where
  "clients_created [] = []"
| "clients_created (ChatOpenAI_created c # es) = c # clients_created es"
| "clients_created (_ # es) = clients_created es"

fun requests :: "event list \<Rightarrow> generate_questions_args list" where
  "requests [] = []"
| "requests (Questions_requested a # es) = a # requests es"
| "requests (_ # es) = requests es"

fun formattings :: "event list \<Rightarrow> nat" where
  "formattings [] = 0"
| "formattings (Template_formatted # es) = Suc (formattings es)"
| "formattings (_ # es) = formattings es"

section \<open>The prompt builder\<close>

definition generate_content_prompt ::
  "string \<Rightarrow> string \<Rightarrow> string \<Rightarrow> QuestionConfig option \<Rightarrow> event list \<times> (py_exn + string)"
where
  "generate_content_prompt topic concept concept_description question_config =
     (case (case question_config of
              None \<Rightarrow> QuestionConfig_init None None None None None
            | Some c \<Rightarrow> Inr c) of
        Inl e \<Rightarrow> ([], Inl e)
      | Inr question_config \<Rightarrow>
          if total_questions question_config = 0 then ([], Inl EmptyConfigurationError)
          else ([Template_formatted],
                format DYNAMIC_PROMPT_TEMPLATE
                  [(''topic'', topic),
                   (''concept'', concept),
                   (''concept_description'', concept_description),
                   (''total_questions'', str_int (total_questions question_config)),
                   (''question_distribution'', to_prompt_string question_config)]))"

section \<open>Credentials\<close>

text \<open>
  \<open>st.secrets\<close> is \<open>None\<close> when reading it raises (no secrets file), and the table of the
  secrets otherwise; \<open>environ\<close> is the process environment.
\<close>

record environment =
  secrets :: "(string \<rightharpoonup> string) option"
  environ :: "string \<rightharpoonup> string"

definition get_or :: "(string \<rightharpoonup> string) \<Rightarrow> string \<Rightarrow> string \<Rightarrow> string" where
  "get_or table key fallback = (case table key of None \<Rightarrow> fallback | Some v \<Rightarrow> v)"

definition get_api_key :: "environment \<Rightarrow> string \<times> string" where
  "get_api_key env =
     (case secrets env of
        Some table \<Rightarrow>
          (get_or table ''OPENROUTER_API_KEY'' '''', get_or table ''CEREBRAS_API_KEY'' '''')
      | None \<Rightarrow>
          (get_or (environ env) ''OPENROUTER_API_KEY'' '''',
           get_or (environ env) ''CEREBRAS_API_KEY'' ''''))"

section \<open>The content generator\<close>

text \<open>
  What \<open>generate_questions\<close> returns is not this module's to decide: \<open>None\<close>, a
  \<open>BiteSizedContent\<close> (an instance of a pydantic model is true and has every declared
  field), or some other object, of which the generator reads its truth value and whether
  it has an attribute \<open>pre_read\<close>.
\<close>

datatype llm_result =
    PyNone
  | Content BiteSizedContent
  | OtherObject bool "string list"

fun truthy :: "llm_result \<Rightarrow> bool" where
  "truthy PyNone = False"
| "truthy (Content b) = True"
| "truthy (OtherObject t attrs) = t"

fun hasattr :: "llm_result \<Rightarrow> string \<Rightarrow> bool" where
  "hasattr PyNone name = False"
| "hasattr (Content b) name =
     (name \<in> set [''pre_read'', ''questions'', ''summary'', ''tags'', ''concept_name'',
                   ''topic'', ''estimated_time'', ''difficulty_level''])"
| "hasattr (OtherObject t attrs) name = (name \<in> set attrs)"

text \<open>The message the handler of \<open>generate_learning_content\<close> builds from \<open>str(e)\<close>.\<close>

definition error_report :: "string \<Rightarrow> string" where
  \<open>error_report str_e =
     (let error_msg = ''Error in content generation: '' @ str_e in
      if sublist ''validation error'' (lower str_e)
      then error_msg @ ''\<newline>\<newline>This usually means the LLM didn't return properly formatted content. ''
                     @ ''Please check your API key and try again.''
      else if sublist ''api'' (lower str_e)
      then error_msg @ ''\<newline>\<newline>This appears to be an API-related error. ''
                     @ ''Please check your API key and internet connection.''
      else error_msg)\<close>

text \<open>
  \<open>llm\<close> is the LLM client library: for the arguments of the one request it either raises
  (\<open>Inl\<close> of \<open>str(e)\<close>, \<open>e\<close> an \<open>Exception\<close>) or returns a value.
\<close>

definition generate_learning_content ::
  "environment \<Rightarrow> (generate_questions_args \<Rightarrow> string + llm_result) \<Rightarrow>
   string \<Rightarrow> string \<Rightarrow> string \<Rightarrow> QuestionConfig option \<Rightarrow> event list \<times> (py_exn + llm_result)"
where
  "generate_learning_content env llm topic concept concept_description question_config =
     (case get_api_key env of (openrouter_key, cerebras_key) \<Rightarrow>
      (case (if openrouter_key \<noteq> []
             then Inr \<lparr>model = ''anthropic/claude-sonnet-4.5'',
                       openai_api_key = openrouter_key,
                       openai_api_base = ''https://openrouter.ai/api/v1''\<rparr>
             else if cerebras_key \<noteq> []
             then Inr \<lparr>model = ''qwen-3-235b-a22b-thinking-2507'',
                       openai_api_key = cerebras_key,
                       openai_api_base = ''https://api.cerebras.ai/v1''\<rparr>
             else Inl MissingCredentialsError) of
         Inl e \<Rightarrow> ([], Inl e)
       | Inr deepseek_terminus \<Rightarrow>
          (let setup = [ChatOpenAI_created deepseek_terminus, Educhain_created deepseek_terminus]
           in case (case question_config of
                      None \<Rightarrow> QuestionConfig_init None None None None None
                    | Some c \<Rightarrow> Inr c) of
                Inl e \<Rightarrow> (setup, Inl e)
              | Inr question_config \<Rightarrow>
                 (case generate_content_prompt topic concept concept_description
                         (Some question_config) of
                    (formatted, Inl e) \<Rightarrow> (setup @ formatted, Inl e)
                  | (formatted, Inr prompt) \<Rightarrow>
                     (let args = \<lparr>custom_model = deepseek_terminus,
                                  topic_arg = topic,
                                  concept_arg = concept,
                                  num = total_questions question_config,
                                  prompt_template = prompt,
                                  response_model = ''BiteSizedContent''\<rparr>;
                          attempt =
                            (case llm args of
                               Inl str_e \<Rightarrow> Inl str_e
                             | Inr result \<Rightarrow>
                                 if \<not> truthy result \<or> \<not> hasattr result ''pre_read''
                                 then Inl empty_response_message
                                 else Inr result)
                      in (setup @ formatted @ [Questions_requested args],
                          case attempt of
                            Inl str_e \<Rightarrow> Inl (Exception (error_report str_e))
                          | Inr result \<Rightarrow> Inr result))))))"

text \<open>
  The usage the module shows in its examples: build the configuration, then call with it.
  A constructor that raises ends the run there.
\<close>

definition configured_prompt ::
  "string \<Rightarrow> string \<Rightarrow> string \<Rightarrow>
   int option \<Rightarrow> int option \<Rightarrow> int option \<Rightarrow> int option \<Rightarrow> int option \<Rightarrow>
   event list \<times> (py_exn + string)"
where
  "configured_prompt topic concept concept_description a b c d e =
     (case QuestionConfig_init a b c d e of
        Inl err \<Rightarrow> ([], Inl err)
      | Inr config \<Rightarrow> generate_content_prompt topic concept concept_description (Some config))"

definition configured_generation ::
  "environment \<Rightarrow> (generate_questions_args \<Rightarrow> string + llm_result) \<Rightarrow>
   string \<Rightarrow> string \<Rightarrow> string \<Rightarrow>
   int option \<Rightarrow> int option \<Rightarrow> int option \<Rightarrow> int option \<Rightarrow> int option \<Rightarrow>
   event list \<times> (py_exn + llm_result)"
where
  "configured_generation env llm topic concept concept_description a b c d e =
     (case QuestionConfig_init a b c d e of
        Inl err \<Rightarrow> ([], Inl err)
      | Inr config \<Rightarrow>
          generate_learning_content env llm topic concept concept_description (Some config))"

section \<open>The specification's reading and concrete inputs\<close>

text \<open>
  The distribution string in the specification's words: the five counts with their labels
  in the fixed order, those with a nonzero count kept, each written as count, space,
  label, and joined with a comma and a space.
\<close>

definition labelled_counts :: "QuestionConfig \<Rightarrow> (int \<times> string) list" where
  "labelled_counts c =
     [(mcq c, ''Multiple Choice (MCQ)''),
      (true_false c, ''True/False''),
      (fill_blank c, ''Fill in the Blank''),
      (matching c, ''Matching''),
      (ordering c, ''Ordering'')]"

definition distribution_string_spec :: "QuestionConfig \<Rightarrow> string" where
  "distribution_string_spec c =
     join '', '' (map (\<lambda>(n, label). str_int n @ '' '' @ label)
                    (filter (\<lambda>(n, label). n \<noteq> 0) (labelled_counts c)))"

definition counts :: "QuestionConfig \<Rightarrow> int list" where
  "counts c = [mcq c, true_false c, fill_blank c, matching c, ordering c]"

fun negative_given :: "int option \<Rightarrow> bool" where
  "negative_given None = False"
| "negative_given (Some v) = (v < 0)"

definition baseline :: QuestionConfig where
  "baseline = \<lparr>mcq = 2, true_false = 2, fill_blank = 1, matching = 0, ordering = 0\<rparr>"

text \<open>The two models \<open>generate_learning_content\<close> builds, by the key they get.\<close>

definition openrouter_model :: "string \<Rightarrow> ChatOpenAI" where
  "openrouter_model key =
     \<lparr>model = ''anthropic/claude-sonnet-4.5'', openai_api_key = key,
      openai_api_base = ''https://openrouter.ai/api/v1''\<rparr>"

definition cerebras_model :: "string \<Rightarrow> ChatOpenAI" where
  "cerebras_model key =
     \<lparr>model = ''qwen-3-235b-a22b-thinking-2507'', openai_api_key = key,
      openai_api_base = ''https://api.cerebras.ai/v1''\<rparr>"

text \<open>
  Three environments: both keys in the secrets; no secrets file and the fallback key in
  the process environment; a secrets file without either key (the process environment is
  then not read).
\<close>

definition both_keys :: environment where
  "both_keys =
     \<lparr>secrets = Some (map_of [(''OPENROUTER_API_KEY'', ''sk-or-1''),
                              (''CEREBRAS_API_KEY'', ''csk-2'')]),
      environ = Map.empty\<rparr>"

definition cerebras_env_only :: environment where
  "cerebras_env_only =
     \<lparr>secrets = None, environ = map_of [(''CEREBRAS_API_KEY'', ''csk-2'')]\<rparr>"

definition no_keys :: environment where
  "no_keys =
     \<lparr>secrets = Some Map.empty, environ = map_of [(''OPENROUTER_API_KEY'', ''sk-or-1'')]\<rparr>"

text \<open>
  Three client libraries: one answers with a lesson whose every field is empty, one
  raises, one returns \<open>None\<close>.
\<close>

definition blank_content :: BiteSizedContent where
  "blank_content =
     \<lparr>pre_read = '''', questions = [], summary = [], tags = [], concept_name = '''',
      content_topic = '''', estimated_time = 0, difficulty_level = ''''\<rparr>"

definition blank_llm :: "generate_questions_args \<Rightarrow> string + llm_result" where
  "blank_llm args = Inr (Content blank_content)"

definition failing_llm :: "generate_questions_args \<Rightarrow> string + llm_result" where
  "failing_llm args = Inl ''Connection error.''"

definition none_llm :: "generate_questions_args \<Rightarrow> string + llm_result" where
  "none_llm args = Inr PyNone"

section \<open>Auxiliary facts\<close>

lemma format_template:
  "format DYNAMIC_PROMPT_TEMPLATE
     [(''topic'', t), (''concept'', n), (''concept_description'', d),
      (''total_questions'', q), (''question_distribution'', s)] =
   Inr (template_text_0 @ t @ template_text_1 @ n @ template_text_2 @ d @
        template_text_3 @ q @ template_text_4 @ s @ template_text_5 @ q @ template_text_6)"
  by (simp add: DYNAMIC_PROMPT_TEMPLATE_def)

lemma init_defaults: "QuestionConfig_init None None None None None = Inr baseline"
  by (simp add: QuestionConfig_init_def baseline_def given_def)

lemma init_cases:
  "QuestionConfig_init a b c d e =
     (if negative_given a \<or> negative_given b \<or> negative_given c \<or> negative_given d \<or>
         negative_given e
      then Inl (ValidationError
             ((if negative_given a then [''mcq''] else []) @
              (if negative_given b then [''true_false''] else []) @
              (if negative_given c then [''fill_blank''] else []) @
              (if negative_given d then [''matching''] else []) @
              (if negative_given e then [''ordering''] else [])))
      else Inr \<lparr>mcq = given a 2, true_false = given b 2, fill_blank = given c 1,
                matching = given d 0, ordering = given e 0\<rparr>)"
  by (cases a; cases b; cases c; cases d; cases e)
     (simp_all add: QuestionConfig_init_def given_def Let_def not_le)

lemma prompt_some:
  "generate_content_prompt t n d (Some c) =
     (if total_questions c = 0 then ([], Inl EmptyConfigurationError)
      else ([Template_formatted],
            Inr (template_text_0 @ t @ template_text_1 @ n @ template_text_2 @ d @
                 template_text_3 @ str_int (total_questions c) @ template_text_4 @
                 to_prompt_string c @ template_text_5 @ str_int (total_questions c) @
                 template_text_6)))"
  by (simp add: generate_content_prompt_def format_template)

lemma prompt_none:
  "generate_content_prompt t n d None = generate_content_prompt t n d (Some baseline)"
  by (simp add: generate_content_prompt_def init_defaults)

lemma baseline_total: "total_questions baseline = 5"
  by (simp add: total_questions_def baseline_def)

lemma report_empty:
  "error_report empty_response_message =
     ''Error in content generation: LLM returned empty or invalid response''"
  by code_simp

lemma report_connection:
  "error_report ''Connection error.'' = ''Error in content generation: Connection error.''"
  by code_simp

lemma keys_both: "get_api_key both_keys = (''sk-or-1'', ''csk-2'')"
  by (simp add: get_api_key_def both_keys_def get_or_def)

lemma keys_cerebras: "get_api_key cerebras_env_only = ('''', ''csk-2'')"
  by (simp add: get_api_key_def cerebras_env_only_def get_or_def)

lemma keys_none: "get_api_key no_keys = ('''', '''')"
  by (simp add: get_api_key_def no_keys_def get_or_def)

text \<open>The generator, branch by branch.\<close>

lemma generate_learning_content_unfold:
  "generate_learning_content env llm t n d qc =
     (case get_api_key env of (k1, k2) \<Rightarrow>
        if k1 = [] \<and> k2 = [] then ([], Inl MissingCredentialsError)
        else
          let m = (if k1 \<noteq> [] then openrouter_model k1 else cerebras_model k2);
              c = (case qc of None \<Rightarrow> baseline | Some c \<Rightarrow> c);
              setup = [ChatOpenAI_created m, Educhain_created m]
          in if total_questions c = 0 then (setup, Inl EmptyConfigurationError)
             else
               let args = \<lparr>custom_model = m, topic_arg = t, concept_arg = n,
                            num = total_questions c,
                            prompt_template =
                              template_text_0 @ t @ template_text_1 @ n @ template_text_2 @ d @
                              template_text_3 @ str_int (total_questions c) @ template_text_4 @
                              to_prompt_string c @ template_text_5 @ str_int (total_questions c) @
                              template_text_6,
                            response_model = ''BiteSizedContent''\<rparr>
               in (setup @ [Template_formatted, Questions_requested args],
                   case llm args of
                     Inl s \<Rightarrow> Inl (Exception (error_report s))
                   | Inr r \<Rightarrow> if truthy r \<and> hasattr r ''pre_read'' then Inr r
                              else Inl (Exception (error_report empty_response_message))))"
  by (cases qc)
     (auto simp: generate_learning_content_def init_defaults prompt_some Let_def
                 openrouter_model_def cerebras_model_def
           split: prod.splits sum.splits)

lemma sublist_join: "x \<in> set xs \<Longrightarrow> sublist x (join sep xs)"
proof (induction sep xs rule: join.induct)
  case (1 sep)
  then show ?case by simp
next
  case (2 sep y)
  then show ?case by simp
next
  case (3 sep y z zs)
  show ?case
  proof (cases "x = y")
    case True
    then show ?thesis by simp
  next
    case False
    with 3 have "sublist x (join sep (z # zs))" by simp
    then obtain ps ss where "join sep (z # zs) = ps @ x @ ss" by (auto simp: sublist_def)
    then have "join sep (y # z # zs) = (y @ sep @ ps) @ x @ ss" by simp
    then show ?thesis unfolding sublist_def by blast
  qed
qed

lemma sublist_trans: "sublist xs ys \<Longrightarrow> sublist ys zs \<Longrightarrow> sublist xs zs"
  by (rule sublist_order.order_trans)

lemma part_in_distribution:
  "mcq c > 0 \<Longrightarrow> sublist (str_int (mcq c) @ '' Multiple Choice (MCQ)'') (to_prompt_string c)"
  "true_false c > 0 \<Longrightarrow> sublist (str_int (true_false c) @ '' True/False'') (to_prompt_string c)"
  "fill_blank c > 0 \<Longrightarrow>
     sublist (str_int (fill_blank c) @ '' Fill in the Blank'') (to_prompt_string c)"
  "matching c > 0 \<Longrightarrow> sublist (str_int (matching c) @ '' Matching'') (to_prompt_string c)"
  "ordering c > 0 \<Longrightarrow> sublist (str_int (ordering c) @ '' Ordering'') (to_prompt_string c)"
  unfolding to_prompt_string_def Let_def
  by (rule sublist_join, simp)+

section \<open>The distribution string\<close>

text \<open>
  C1. For every \<open>QuestionConfig\<close> with non-negative counts, \<open>to_prompt_string\<close> is the
  distribution string as the specification words it: exactly the types with a nonzero
  count, in the order mcq, true_false, fill_blank, matching, ordering, each as the count,
  a space and the label, joined with \<open>", "\<close>. The configuration (2, 2, 1, 0, 0) gives
  \<open>"2 Multiple Choice (MCQ), 2 True/False, 1 Fill in the Blank"\<close>.
\<close>

theorem to_prompt_string_lists_nonzero_types:
  assumes "0 \<le> mcq c" "0 \<le> true_false c" "0 \<le> fill_blank c" "0 \<le> matching c"
    "0 \<le> ordering c"
  shows "to_prompt_string c = distribution_string_spec c \<and>
         to_prompt_string
           \<lparr>mcq = 2, true_false = 2, fill_blank = 1, matching = 0, ordering = 0\<rparr> =
           ''2 Multiple Choice (MCQ), 2 True/False, 1 Fill in the Blank''"
proof
  have pos: "\<And>x::int. 0 \<le> x \<Longrightarrow> (0 < x) = (x \<noteq> 0)" by auto
  show "to_prompt_string c = distribution_string_spec c"
    using assms
    by (simp add: to_prompt_string_def distribution_string_spec_def labelled_counts_def pos)
  show "to_prompt_string
          \<lparr>mcq = 2, true_false = 2, fill_blank = 1, matching = 0, ordering = 0\<rparr> =
          ''2 Multiple Choice (MCQ), 2 True/False, 1 Fill in the Blank''"
    by (simp add: to_prompt_string_def str_int_def str_nat.simps)
qed

theorem to_prompt_string_lists_nonzero_types_witness:
  "to_prompt_string
     \<lparr>mcq = 3, true_false = 0, fill_blank = 12, matching = 0, ordering = 1\<rparr> =
     ''3 Multiple Choice (MCQ), 12 Fill in the Blank, 1 Ordering''"
  using to_prompt_string_lists_nonzero_types
    [of "\<lparr>mcq = 3, true_false = 0, fill_blank = 12, matching = 0, ordering = 1\<rparr>"]
  by (simp add: distribution_string_spec_def labelled_counts_def str_int_def str_nat.simps)

text \<open>
  C10. For the configuration whose five counts are zero, \<open>to_prompt_string\<close> returns the
  empty string; it is a function of the counts alone and has no failing branch. The
  prompt builder rejects the same configuration.
\<close>

theorem to_prompt_string_all_zero:
  "to_prompt_string
     \<lparr>mcq = 0, true_false = 0, fill_blank = 0, matching = 0, ordering = 0\<rparr> = '''' \<and>
   generate_content_prompt topic concept concept_description
     (Some \<lparr>mcq = 0, true_false = 0, fill_blank = 0, matching = 0, ordering = 0\<rparr>) =
     ([], Inl EmptyConfigurationError)"
  by (simp add: to_prompt_string_def generate_content_prompt_def total_questions_def)

theorem to_prompt_string_all_zero_witness:
  "to_prompt_string
     \<lparr>mcq = 0, true_false = 0, fill_blank = 0, matching = 0, ordering = 0\<rparr> = '''' \<and>
   generate_content_prompt ''Psychology'' ''Growth Mindset'' ''Why''
     (Some \<lparr>mcq = 0, true_false = 0, fill_blank = 0, matching = 0, ordering = 0\<rparr>) =
     ([], Inl EmptyConfigurationError)"
  using to_prompt_string_all_zero [of "''Psychology''" "''Growth Mindset''" "''Why''"]
  by simp

section \<open>The total\<close>

text \<open>
  C7. \<open>total_questions\<close> is the sum of the five counts, and two configurations holding
  the same five counts in any arrangement over the fields have the same total.
\<close>

theorem total_questions_exact_sum:
  "total_questions c = mcq c + true_false c + fill_blank c + matching c + ordering c \<and>
   (mset (counts c) = mset (counts c') \<longrightarrow> total_questions c = total_questions c')"
proof -
  have s: "\<And>x. total_questions x = sum_mset (mset (counts x))"
    by (simp add: total_questions_def counts_def)
  show ?thesis by (simp add: s) (simp add: total_questions_def counts_def)
qed

theorem total_questions_exact_sum_witness:
  "total_questions
     \<lparr>mcq = 2, true_false = 2, fill_blank = 1, matching = 0, ordering = 0\<rparr> = 5 \<and>
   total_questions
     \<lparr>mcq = 0, true_false = 1, fill_blank = 2, matching = 0, ordering = 2\<rparr> = 5"
  using total_questions_exact_sum
    [of "\<lparr>mcq = 2, true_false = 2, fill_blank = 1, matching = 0, ordering = 0\<rparr>"
        "\<lparr>mcq = 0, true_false = 1, fill_blank = 2, matching = 0, ordering = 2\<rparr>"]
  by (simp add: counts_def)

section \<open>The constructor\<close>

text \<open>
  C8. Constructing a \<open>QuestionConfig\<close> with a negative count in any of the five fields
  fails with pydantic's \<open>ValidationError\<close> (the specification's \<open>InvalidConfigError\<close>), and
  a run that builds the configuration and then calls the prompt builder or the generator
  ends there: nothing is formatted, no client is constructed and nothing is requested.
  With every given count non-negative the constructor returns the configuration, an
  omitted count at its default.
\<close>

theorem QuestionConfig_init_rejects_negative:
  "(negative_given a \<or> negative_given b \<or> negative_given c \<or> negative_given d \<or>
    negative_given e \<longrightarrow>
      (\<exists>err. InvalidConfigError err \<and>
             QuestionConfig_init a b c d e = Inl err \<and>
             configured_prompt topic concept concept_description a b c d e = ([], Inl err) \<and>
             configured_generation env llm topic concept concept_description a b c d e =
               ([], Inl err))) \<and>
   (\<not> (negative_given a \<or> negative_given b \<or> negative_given c \<or> negative_given d \<or>
       negative_given e) \<longrightarrow>
      QuestionConfig_init a b c d e =
        Inr \<lparr>mcq = given a 2, true_false = given b 2, fill_blank = given c 1,
             matching = given d 0, ordering = given e 0\<rparr>)"
  by (simp add: init_cases configured_prompt_def configured_generation_def)

theorem QuestionConfig_init_rejects_negative_witness:
  "(\<exists>err. InvalidConfigError err \<and>
       QuestionConfig_init (Some 3) (Some (- 1)) None None None = Inl err \<and>
       configured_prompt ''Psychology'' ''Growth Mindset'' ''Why''
         (Some 3) (Some (- 1)) None None None = ([], Inl err) \<and>
       configured_generation both_keys blank_llm ''Psychology'' ''Growth Mindset'' ''Why''
         (Some 3) (Some (- 1)) None None None = ([], Inl err)) \<and>
   QuestionConfig_init (Some 3) (Some 2) None None (Some 0) =
     Inr \<lparr>mcq = 3, true_false = 2, fill_blank = 1, matching = 0, ordering = 0\<rparr>"
  using QuestionConfig_init_rejects_negative
          [of "Some 3" "Some (- 1)" None None None
              "''Psychology''" "''Growth Mindset''" "''Why''" both_keys blank_llm]
        QuestionConfig_init_rejects_negative [of "Some 3" "Some 2" None None "Some 0"]
  by (simp add: given_def)

section \<open>The prompt builder's results\<close>

text \<open>
  C2. For every \<open>QuestionConfig\<close> whose \<open>total_questions\<close> is 0,
  \<open>generate_content_prompt\<close> fails with the empty-configuration error and formats nothing
  (its list of effects is empty); for every configuration whose total is at least 1 it
  formats the template once and returns a prompt.
\<close>

theorem generate_content_prompt_empty_configuration:
  "(total_questions c = 0 \<longrightarrow>
      generate_content_prompt topic concept concept_description (Some c) =
        ([], Inl EmptyConfigurationError)) \<and>
   (total_questions c \<ge> 1 \<longrightarrow>
      (\<exists>prompt. generate_content_prompt topic concept concept_description (Some c) =
         ([Template_formatted], Inr prompt)))"
  by (simp add: prompt_some)

theorem generate_content_prompt_empty_configuration_witness:
  "generate_content_prompt ''Psychology'' ''Growth Mindset'' ''Why''
     (Some \<lparr>mcq = 0, true_false = 0, fill_blank = 0, matching = 0, ordering = 0\<rparr>) =
     ([], Inl EmptyConfigurationError) \<and>
   (\<exists>prompt. generate_content_prompt ''Psychology'' ''Growth Mindset'' ''Why''
     (Some \<lparr>mcq = 3, true_false = 2, fill_blank = 0, matching = 0, ordering = 0\<rparr>) =
     ([Template_formatted], Inr prompt))"
  using generate_content_prompt_empty_configuration
          [of "\<lparr>mcq = 0, true_false = 0, fill_blank = 0, matching = 0, ordering = 0\<rparr>"
              "''Psychology''" "''Growth Mindset''" "''Why''"]
        generate_content_prompt_empty_configuration
          [of "\<lparr>mcq = 3, true_false = 2, fill_blank = 0, matching = 0, ordering = 0\<rparr>"
              "''Psychology''" "''Growth Mindset''" "''Why''"]
  by (simp add: total_questions_def)

text \<open>
  C4. For every \<open>QuestionConfig\<close> with non-negative counts and a total of at least 1,
  \<open>generate_content_prompt\<close> returns a prompt that contains the decimal rendering of
  \<open>total_questions\<close>, the whole distribution string, and for every type with a nonzero
  count its part of the distribution string, count and label.
\<close>

theorem generate_content_prompt_contains_total_and_labels:
  assumes "0 \<le> mcq c" "0 \<le> true_false c" "0 \<le> fill_blank c" "0 \<le> matching c"
    "0 \<le> ordering c"
    and "total_questions c \<ge> 1"
  shows "\<exists>prompt.
           snd (generate_content_prompt topic concept concept_description (Some c)) =
             Inr prompt \<and>
           sublist (str_int (total_questions c)) prompt \<and>
           sublist (to_prompt_string c) prompt \<and>
           (mcq c \<noteq> 0 \<longrightarrow> sublist (str_int (mcq c) @ '' Multiple Choice (MCQ)'') prompt) \<and>
           (true_false c \<noteq> 0 \<longrightarrow> sublist (str_int (true_false c) @ '' True/False'') prompt) \<and>
           (fill_blank c \<noteq> 0 \<longrightarrow>
              sublist (str_int (fill_blank c) @ '' Fill in the Blank'') prompt) \<and>
           (matching c \<noteq> 0 \<longrightarrow> sublist (str_int (matching c) @ '' Matching'') prompt) \<and>
           (ordering c \<noteq> 0 \<longrightarrow> sublist (str_int (ordering c) @ '' Ordering'') prompt)"
proof -
  define q where "q = str_int (total_questions c)"
  define s where "s = to_prompt_string c"
  define prompt where
    "prompt = template_text_0 @ topic @ template_text_1 @ concept @ template_text_2 @
              concept_description @ template_text_3 @ q @ template_text_4 @ s @
              template_text_5 @ q @ template_text_6"
  have r: "snd (generate_content_prompt topic concept concept_description (Some c)) =
             Inr prompt"
    using assms(6) by (simp add: prompt_some prompt_def q_def s_def)
  have "prompt = (template_text_0 @ topic @ template_text_1 @ concept @ template_text_2 @
              concept_description @ template_text_3) @ q @ (template_text_4 @ s @
              template_text_5 @ q @ template_text_6)"
    by (simp add: prompt_def)
  then have tq: "sublist q prompt" unfolding sublist_def by blast
  have "prompt = (template_text_0 @ topic @ template_text_1 @ concept @ template_text_2 @
              concept_description @ template_text_3 @ q @ template_text_4) @ s @
              (template_text_5 @ q @ template_text_6)"
    by (simp add: prompt_def)
  then have ds: "sublist s prompt" unfolding sublist_def by blast
  have parts:
    "mcq c \<noteq> 0 \<longrightarrow> sublist (str_int (mcq c) @ '' Multiple Choice (MCQ)'') prompt"
    "true_false c \<noteq> 0 \<longrightarrow> sublist (str_int (true_false c) @ '' True/False'') prompt"
    "fill_blank c \<noteq> 0 \<longrightarrow> sublist (str_int (fill_blank c) @ '' Fill in the Blank'') prompt"
    "matching c \<noteq> 0 \<longrightarrow> sublist (str_int (matching c) @ '' Matching'') prompt"
    "ordering c \<noteq> 0 \<longrightarrow> sublist (str_int (ordering c) @ '' Ordering'') prompt"
    using assms(1-5) part_in_distribution [of c] ds
    by (auto simp: s_def intro: sublist_trans)
  from r tq ds parts show ?thesis unfolding q_def s_def by blast
qed

theorem generate_content_prompt_contains_total_and_labels_witness:
  "\<exists>prompt.
     snd (generate_content_prompt ''Psychology'' ''Growth Mindset'' ''Why''
       (Some \<lparr>mcq = 3, true_false = 0, fill_blank = 0, matching = 10, ordering = 0\<rparr>)) =
       Inr prompt \<and>
     sublist ''13'' prompt \<and>
     sublist ''3 Multiple Choice (MCQ), 10 Matching'' prompt \<and>
     sublist ''3 Multiple Choice (MCQ)'' prompt \<and>
     sublist ''10 Matching'' prompt"
  using generate_content_prompt_contains_total_and_labels
    [of "\<lparr>mcq = 3, true_false = 0, fill_blank = 0, matching = 10, ordering = 0\<rparr>"
        "''Psychology''" "''Growth Mindset''" "''Why''"]
  by (simp add: total_questions_def to_prompt_string_def str_int_def str_nat.simps)

section \<open>The default configuration\<close>

text \<open>
  C9. With \<open>question_config\<close> omitted, \<open>generate_content_prompt\<close> and
  \<open>generate_learning_content\<close> behave as with the configuration (2, 2, 1, 0, 0), which is
  what the constructor without arguments returns and whose total is 5.
\<close>

theorem omitted_question_config_is_baseline:
  "generate_content_prompt topic concept concept_description None =
     generate_content_prompt topic concept concept_description
       (Some \<lparr>mcq = 2, true_false = 2, fill_blank = 1, matching = 0, ordering = 0\<rparr>) \<and>
   generate_learning_content env llm topic concept concept_description None =
     generate_learning_content env llm topic concept concept_description
       (Some \<lparr>mcq = 2, true_false = 2, fill_blank = 1, matching = 0, ordering = 0\<rparr>) \<and>
   QuestionConfig_init None None None None None =
     Inr \<lparr>mcq = 2, true_false = 2, fill_blank = 1, matching = 0, ordering = 0\<rparr> \<and>
   total_questions
     \<lparr>mcq = 2, true_false = 2, fill_blank = 1, matching = 0, ordering = 0\<rparr> = 5"
proof -
  have "generate_learning_content env llm topic concept concept_description None =
        generate_learning_content env llm topic concept concept_description (Some baseline)"
    by (simp add: generate_learning_content_unfold Let_def split: prod.splits)
  then show ?thesis
    using init_defaults prompt_none [of topic concept concept_description]
    by (simp add: baseline_def total_questions_def)
qed

theorem omitted_question_config_is_baseline_witness:
  "fst (generate_content_prompt ''Psychology'' ''Growth Mindset'' ''Why'' None) =
     [Template_formatted] \<and>
   snd (generate_learning_content cerebras_env_only none_llm
          ''Psychology'' ''Growth Mindset'' ''Why'' None) =
   snd (generate_learning_content cerebras_env_only none_llm
          ''Psychology'' ''Growth Mindset'' ''Why''
          (Some \<lparr>mcq = 2, true_false = 2, fill_blank = 1, matching = 0, ordering = 0\<rparr>))"
  using omitted_question_config_is_baseline
    [of "''Psychology''" "''Growth Mindset''" "''Why''" cerebras_env_only none_llm]
  by (simp add: prompt_some total_questions_def)

section \<open>Credentials and the backend\<close>

text \<open>
  C3. When both credentials resolve to the empty string, \<open>generate_learning_content\<close>
  fails with the missing-credentials error and its list of effects is empty: no model and
  no client is constructed, nothing is formatted and nothing is requested, whatever the
  other arguments and the client library are.
\<close>

theorem generate_learning_content_missing_credentials:
  assumes "get_api_key env = ('''', '''')"
  shows "generate_learning_content env llm topic concept concept_description question_config =
           ([], Inl MissingCredentialsError)"
  using assms by (simp add: generate_learning_content_def)

theorem generate_learning_content_missing_credentials_witness:
  "generate_learning_content no_keys blank_llm ''Psychology'' ''Growth Mindset'' ''Why'' None =
     ([], Inl MissingCredentialsError)"
  using generate_learning_content_missing_credentials
    [of no_keys blank_llm "''Psychology''" "''Growth Mindset''" "''Why''" None]
  by (simp add: keys_none)

text \<open>
  C5. The backend follows the credentials in a fixed order: with a non-empty OpenRouter
  key the one model constructed is the OpenRouter one, whatever the Cerebras key is; the
  Cerebras model is constructed only when the OpenRouter key is empty and the Cerebras
  key is not. The choice holds for the whole call: at most one request is made, it goes
  to the chosen model, and a request that raises ends the call with the handler's
  \<open>Exception\<close>, with no second model and no second request.
\<close>

theorem generate_learning_content_backend_priority:
  assumes "get_api_key env = (openrouter_key, cerebras_key)"
  shows "clients_created (fst (generate_learning_content env llm topic concept
             concept_description question_config)) =
           (if openrouter_key \<noteq> [] then [openrouter_model openrouter_key]
            else if cerebras_key \<noteq> [] then [cerebras_model cerebras_key]
            else []) \<and>
         length (requests (fst (generate_learning_content env llm topic concept
             concept_description question_config))) \<le> 1 \<and>
         (\<forall>a \<in> set (requests (fst (generate_learning_content env llm topic concept
             concept_description question_config))).
            custom_model a = (if openrouter_key \<noteq> [] then openrouter_model openrouter_key
                              else cerebras_model cerebras_key)) \<and>
         (requests (fst (generate_learning_content env llm topic concept
             concept_description question_config)) = [args] \<and> llm args = Inl str_e \<longrightarrow>
            snd (generate_learning_content env llm topic concept
                   concept_description question_config) =
              Inl (Exception (error_report str_e)))"
  using assms by (auto simp: generate_learning_content_unfold Let_def)

theorem generate_learning_content_backend_priority_witness:
  "clients_created (fst (generate_learning_content both_keys failing_llm
       ''Psychology'' ''Growth Mindset'' ''Why'' None)) = [openrouter_model ''sk-or-1''] \<and>
   map custom_model (requests (fst (generate_learning_content both_keys failing_llm
       ''Psychology'' ''Growth Mindset'' ''Why'' None))) = [openrouter_model ''sk-or-1''] \<and>
   snd (generate_learning_content both_keys failing_llm
       ''Psychology'' ''Growth Mindset'' ''Why'' None) =
     Inl (Exception ''Error in content generation: Connection error.'')"
proof -
  define run where
    "run = generate_learning_content both_keys failing_llm
             ''Psychology'' ''Growth Mindset'' ''Why'' None"
  have "\<exists>args. requests (fst run) = [args]"
    by (simp add: run_def generate_learning_content_unfold keys_both baseline_total Let_def)
  then obtain args where a: "requests (fst run) = [args]" by blast
  have f: "failing_llm args = Inl ''Connection error.''" by (simp add: failing_llm_def)
  show ?thesis
    using generate_learning_content_backend_priority
            [OF keys_both, of failing_llm "''Psychology''" "''Growth Mindset''" "''Why''" None
               args "''Connection error.''"]
          a f
    by (simp add: run_def report_connection)
qed

section \<open>The check of the response\<close>

text \<open>
  C6, as the specification states it, fails: a response whose \<open>pre_read\<close> is the empty
  string is returned to the caller. The check reads whether the attribute exists, not
  what it holds.
\<close>

theorem generate_learning_content_returns_blank_pre_read:
  "snd (generate_learning_content both_keys blank_llm
          ''Psychology'' ''Growth Mindset'' ''Why'' None) = Inr (Content blank_content) \<and>
   pre_read blank_content = ''''"
  by (simp add: generate_learning_content_unfold keys_both baseline_total Let_def
                blank_llm_def blank_content_def)

text \<open>
  C6, amended. After a request that returns, \<open>generate_learning_content\<close> checks that the
  result is true (not \<open>None\<close>) and has an attribute \<open>pre_read\<close>. A result that fails the
  check is never returned: the empty-response \<open>ValueError\<close> is raised inside the \<open>try\<close>, so
  the caller gets the handler's \<open>Exception\<close> with the message \<open>Error in content
  generation: LLM returned empty or invalid response\<close>. A result that passes the check is
  returned as it is.
\<close>

theorem generate_learning_content_response_check:
  "(snd (generate_learning_content env llm topic concept concept_description
           question_config) = Inr result
      \<longrightarrow> truthy result \<and> hasattr result ''pre_read'') \<and>
   (requests (fst (generate_learning_content env llm topic concept concept_description
           question_config)) = [args]
      \<and> llm args = Inr result \<and> (\<not> truthy result \<or> \<not> hasattr result ''pre_read'')
      \<longrightarrow> snd (generate_learning_content env llm topic concept concept_description
                 question_config) =
            Inl (Exception
                   ''Error in content generation: LLM returned empty or invalid response'')) \<and>
   (requests (fst (generate_learning_content env llm topic concept concept_description
           question_config)) = [args]
      \<and> llm args = Inr result \<and> truthy result \<and> hasattr result ''pre_read''
      \<longrightarrow> snd (generate_learning_content env llm topic concept concept_description
                 question_config) = Inr result)"
  by (auto simp: generate_learning_content_unfold Let_def report_empty
           split: prod.splits if_splits sum.splits)

theorem generate_learning_content_response_check_witness:
  "snd (generate_learning_content cerebras_env_only none_llm
          ''Psychology'' ''Growth Mindset'' ''Why'' None) =
     Inl (Exception ''Error in content generation: LLM returned empty or invalid response'') \<and>
   truthy (Content blank_content) \<and> hasattr (Content blank_content) ''pre_read''"
proof -
  define run where
    "run = generate_learning_content cerebras_env_only none_llm
             ''Psychology'' ''Growth Mindset'' ''Why'' None"
  have "\<exists>args. requests (fst run) = [args]"
    by (simp add: run_def generate_learning_content_unfold keys_cerebras baseline_total Let_def)
  then obtain args where a: "requests (fst run) = [args]" by blast
  have n: "none_llm args = Inr PyNone" by (simp add: none_llm_def)
  have b: "snd (generate_learning_content both_keys blank_llm
                  ''Psychology'' ''Growth Mindset'' ''Why'' None) = Inr (Content blank_content)"
    by (simp add: generate_learning_content_unfold keys_both baseline_total Let_def
                  blank_llm_def)
  show ?thesis
    using generate_learning_content_response_check
            [of cerebras_env_only none_llm "''Psychology''" "''Growth Mindset''" "''Why''" None
                PyNone args]
          generate_learning_content_response_check
            [of both_keys blank_llm "''Psychology''" "''Growth Mindset''" "''Why''" None
                "Content blank_content"]
          a n b
    by (simp add: run_def)
qed

end
